theory Spec2Isabelle
  imports Complex_Main "HOL-Library.Word" "HOL-Library.Char_ord" "HOL-Library.List_Lexorder"
    "HOL-Library.Multiset" "HOL-Library.AList"
begin

unbundle bit_operations_syntax

section \<open>Data model\<close>

text \<open>
  Strings are JavaScript strings read as lists of code units; the model keeps the code units
  below 256 (Isabelle's \<open>char\<close>), so \<open>toLowerCase\<close> and \<open>trim\<close> are the Latin-1
  restrictions of the JavaScript operations.

  A Luxon \<open>DateTime\<close> is an instant (epoch milliseconds, what \<open>toMillis()\<close> returns)
  together with the UTC offset, in minutes, of the zone it is expressed in. A zone is the
  function giving its offset at every instant, a whole number of minutes; \<open>setZone\<close>
  re-expresses the instant in the zone. The configured \<open>timezone\<close> names a zone that
  exists, and every timestamp is a valid \<open>DateTime\<close>.
\<close>

record DateTime =
  millis :: int
  offset :: int

type_synonym zone = "int \<Rightarrow> int"

definition toMillis :: "DateTime \<Rightarrow> int" where
  "toMillis dt = millis dt"

definition setZone :: "zone \<Rightarrow> DateTime \<Rightarrow> DateTime" where
  "setZone z dt = dt\<lparr>offset := z (millis dt)\<rparr>"

text \<open>
  \<open>startOf('minute')\<close> clears the seconds and milliseconds of the local time.
  \<open>toISO()\<close> prints the local date and time to the millisecond followed by the offset; the
  model keeps the two numbers that the printed text determines and is determined by.
\<close>

definition startOf_minute :: "DateTime \<Rightarrow> DateTime" where
  "startOf_minute dt = dt\<lparr>millis := millis dt - (millis dt + offset dt * 60000) mod 60000\<rparr>"

definition toISO :: "DateTime \<Rightarrow> int \<times> int" where
  "toISO dt = (millis dt + offset dt * 60000, offset dt)"

datatype jsval = JNum rat | JStr string

record GeoLocation =
  lat :: rat
  lng :: rat
  name :: "string option"
  countryCode :: "string option"

record Entity =
  ent_text :: string
  ent_type :: string
  ent_confidence :: rat
  ent_lat :: "rat option"
  ent_lng :: "rat option"

datatype Label = positive | negative | neutral

record SentimentScore =
  score :: rat
  magnitude :: rat
  label :: Label

record NlpResult =
  nlp_entities :: "(string \<times> string list) list"
  nlp_score :: rat
  nlp_label :: string
  nlp_topics :: "string list"

record TwitterGeo =
  geo_coordinates :: "rat list option"
  geo_place_name :: "string option"
  geo_place_full_name :: "string option"

text \<open>The keys of the open \<open>metadata\<close> map that the modelled code reads or writes.\<close>

record Metadata =
  md_lat :: "jsval option"
  md_lng :: "jsval option"
  md_locationName :: "string option"
  md_geo :: "TwitterGeo option"
  md_subreddit :: "string option"
  md_nlp :: "NlpResult option"

text \<open>
  \<open>TimelineEvent\<close>, with the fields the modelled functions read or write; an optional
  field is an \<open>option\<close>.
\<close>

record TimelineEvent =
  event_id :: string
  platform :: string
  category :: string
  timestamp :: DateTime
  originalTimestamp :: string
  title :: string
  content :: string
  url :: string
  username :: string
  location :: "GeoLocation option"
  entities :: "Entity list option"
  sentiment :: "SentimentScore option"
  topics :: "string list option"
  language :: "string option"
  metadata :: Metadata

section \<open>String operations\<close>

definition toLowerCase_char :: "char \<Rightarrow> char" where
  "toLowerCase_char c =
     (let n = (of_char c :: nat) in
      if (65 \<le> n \<and> n \<le> 90) \<or> (192 \<le> n \<and> n \<le> 222 \<and> n \<noteq> 215)
      then char_of (n + 32) else c)"

definition toLowerCase :: "string \<Rightarrow> string" where
  "toLowerCase s = map toLowerCase_char s"

definition isWhiteSpace :: "char \<Rightarrow> bool" where
  "isWhiteSpace c = (let n = (of_char c :: nat) in (9 \<le> n \<and> n \<le> 13) \<or> n = 32 \<or> n = 160)"

definition trim :: "string \<Rightarrow> string" where
  "trim s = rev (dropWhile isWhiteSpace (rev (dropWhile isWhiteSpace s)))"

section \<open>TimelineProcessor\<close>

subsection \<open>simpleHash and deduplicateEvents\<close>

text \<open>
  \<open>hash\<close> is kept in 32 bits by \<open>hash & hash\<close>; \<open>(hash << 5) - hash + char\<close> is exact
  before that conversion, so each step is the 32-bit wrap-around of \<open>31 * hash + char\<close>.
  \<open>toString\<close> prints the signed value in decimal; a 32-bit value has at most ten
  digits.
\<close>

fun simpleHash_loop :: "32 word \<Rightarrow> string \<Rightarrow> 32 word" where
  "simpleHash_loop hash [] = hash"
| "simpleHash_loop hash (c # cs) = simpleHash_loop ((push_bit 5 hash - hash) + of_nat (of_char c)) cs"

definition digitChar :: "nat \<Rightarrow> char" where
  "digitChar d = ''0123456789'' ! d"

definition decimal :: "nat \<Rightarrow> string" where
  "decimal n =
     (let ds = dropWhile (\<lambda>c. c = CHR ''0'')
                 (map (\<lambda>p. digitChar (n div p mod 10))
                    [1000000000, 100000000, 10000000, 1000000, 100000, 10000, 1000, 100, 10, 1])
      in if ds = [] then ''0'' else ds)"

definition toString_int :: "int \<Rightarrow> string" where
  "toString_int i = (if i < 0 then CHR ''-'' # decimal (nat (- i)) else decimal (nat i))"

definition simpleHash :: "string \<Rightarrow> string" where
  "simpleHash str = toString_int (sint (simpleHash_loop 0 str))"

text \<open>
  The key \<open>`${platform}-${timeKey}-${contentHash}`\<close> is kept as the triple of its three
  parts: the time part has a fixed layout and the hash is a decimal number, so the joined
  text is equal for two events exactly when the three parts are.
\<close>

type_synonym dedupeKey = "string \<times> (int \<times> int) \<times> string"

definition dedupeKey :: "TimelineEvent \<Rightarrow> dedupeKey" where
  "dedupeKey event =
     (let timeKey = toISO (startOf_minute (timestamp event));
          contentHash = simpleHash (trim (toLowerCase (content event)))
      in (platform event, timeKey, contentHash))"

fun deduplicate_loop ::
  "dedupeKey set \<Rightarrow> TimelineEvent list \<Rightarrow> TimelineEvent list \<Rightarrow> TimelineEvent list" where
  "deduplicate_loop seen deduplicated [] = deduplicated"
| "deduplicate_loop seen deduplicated (event # events) =
     (if dedupeKey event \<notin> seen
      then deduplicate_loop (insert (dedupeKey event) seen) (deduplicated @ [event]) events
      else deduplicate_loop seen deduplicated events)"

definition deduplicateEvents :: "TimelineEvent list \<Rightarrow> TimelineEvent list" where
  "deduplicateEvents events = deduplicate_loop {} [] events"

subsection \<open>normalizeTimestamps and sortEventsByTimestamp\<close>

definition normalizeTimestamps :: "zone \<Rightarrow> TimelineEvent list \<Rightarrow> TimelineEvent list" where
  "normalizeTimestamps timezone events =
     map (\<lambda>event. event\<lparr>timestamp := setZone timezone (timestamp event)\<rparr>) events"

text \<open>
  \<open>Array.prototype.sort\<close> is a stable sort; with the comparator
  \<open>a.timestamp.toMillis() - b.timestamp.toMillis()\<close> it is the stable sort on the key
  \<open>toMillis\<close>.
\<close>

definition sortEventsByTimestamp :: "TimelineEvent list \<Rightarrow> TimelineEvent list" where
  "sortEventsByTimestamp events = sort_key (\<lambda>e. toMillis (timestamp e)) events"

text \<open>
  \<open>buildTimeline\<close> sorts in place with the comparator
  \<open>b.timestamp.toMillis() - a.timestamp.toMillis()\<close> ("most recent first"): the stable
  sort on the negated key.
\<close>

definition sortMostRecentFirst :: "TimelineEvent list \<Rightarrow> TimelineEvent list" where
  "sortMostRecentFirst events = sort_key (\<lambda>e. - toMillis (timestamp e)) events"

subsection \<open>processEvents\<close>

datatype error = Error string

text \<open>
  The credentials that \<open>processEvents\<close> checks. A platform entry that is absent, a field
  that is absent and the empty string all fail the guards
  \<open>!this.platformConfigs.twitter?.bearerToken\<close>.
\<close>

record PlatformConfigs =
  twitter_bearerToken :: "string option"
  reddit_clientId :: "string option"
  reddit_clientSecret :: "string option"
  pastebin_apiKey :: "string option"

definition falsy :: "string option \<Rightarrow> bool" where
  "falsy v = (case v of None \<Rightarrow> True | Some s \<Rightarrow> s = [])"

record Analysis =
  an_sentiment :: bool
  an_entities :: bool
  an_topics :: bool

record TimelineConfig =
  config_target :: string
  timezone :: zone
  platforms :: "string list"
  analysis :: "Analysis option"

text \<open>
  The ingesters call remote services. For one run, \<open>testConnection p\<close> is the error thrown
  by the connection test of platform \<open>p\<close>, if any, and \<open>ingest p\<close> is the outcome of
  \<open>ingester.ingest(target, dateRange)\<close>: \<open>Inl\<close> a rejection, \<open>Inr\<close> the events returned.
  Every adapter call settles (a timeout of its HTTP client is a rejection).
\<close>

record Ingesters =
  testConnection :: "string \<Rightarrow> error option"
  ingest :: "string \<Rightarrow> error + TimelineEvent list"

datatype console =
  ConnectionTestFailed string error
| FailedToProcess string error
| NlpProcessingError error

definition selectIngester :: "PlatformConfigs \<Rightarrow> string \<Rightarrow> error + unit" where
  "selectIngester platformConfigs p =
     (if p = ''twitter'' then
        (if falsy (twitter_bearerToken platformConfigs)
         then Inl (Error ''Twitter bearer token is required'') else Inr ())
      else if p = ''reddit'' then
        (if falsy (reddit_clientId platformConfigs) \<or> falsy (reddit_clientSecret platformConfigs)
         then Inl (Error ''Reddit client ID and secret are required'') else Inr ())
      else if p = ''github'' then Inr ()
      else if p = ''rss'' then Inr ()
      else if p = ''pastebin'' then
        (if falsy (pastebin_apiKey platformConfigs)
         then Inl (Error ''Pastebin API key is required'') else Inr ())
      else Inl (Error (''Unsupported platform: '' @ p)))"

text \<open>
  The outer \<open>catch\<close> of \<open>processEvents\<close> logs the error and throws it again; the inner one
  turns a failed connection test into a warning.
\<close>

definition processEvents ::
  "TimelineConfig \<Rightarrow> PlatformConfigs \<Rightarrow> Ingesters \<Rightarrow> string
     \<Rightarrow> console list \<times> (error + TimelineEvent list)" where
  "processEvents config platformConfigs ing p =
     (case selectIngester platformConfigs p of
        Inl e \<Rightarrow> ([FailedToProcess p e], Inl e)
      | Inr _ \<Rightarrow>
          (let warned = (case testConnection ing p of
                           Some e \<Rightarrow> [ConnectionTestFailed p e] | None \<Rightarrow> [])
           in case ingest ing p of
                Inl e \<Rightarrow> (warned @ [FailedToProcess p e], Inl e)
              | Inr events \<Rightarrow>
                  (warned,
                   Inr (map (\<lambda>event. event\<lparr>timestamp := setZone (timezone config) (timestamp event)\<rparr>)
                          events))))"

subsection \<open>The NLP stage of buildTimeline\<close>

text \<open>
  \<open>NLPProcessor.process\<close> of \<open>processors/nlp-processor.ts\<close> calls the \<open>natural\<close> and
  \<open>compromise\<close> libraries. \<open>lib events\<close> is the outcome of those calls for one batch: \<open>Inl\<close>
  an error thrown inside the \<open>try\<close> block, \<open>Inr f\<close> the annotation \<open>f\<close> computed for each
  content. On an error the \<open>catch\<close> logs it and returns the events as they came.
\<close>

type_synonym nlp_library = "TimelineEvent list \<Rightarrow> error + (string \<Rightarrow> NlpResult)"

definition process :: "nlp_library \<Rightarrow> TimelineEvent list \<Rightarrow> console list \<times> TimelineEvent list" where
  "process lib events =
     (case lib events of
        Inl e \<Rightarrow> ([NlpProcessingError e], events)
      | Inr f \<Rightarrow>
          ([], map (\<lambda>event. event\<lparr>metadata := (metadata event)\<lparr>md_nlp := Some (f (content event))\<rparr>\<rparr>)
                 events))"

subsection \<open>buildTimeline\<close>

text \<open>
  \<open>Promise.allSettled\<close> yields one result per platform, in the order of
  \<open>config.platforms\<close>; the \<open>forEach\<close> appends the value of each fulfilled result and logs the
  reason of each rejected one. The console lines of the concurrent \<open>processEvents\<close> calls
  are listed platform by platform.
\<close>

fun collect ::
  "(string \<times> (error + TimelineEvent list)) list \<Rightarrow> TimelineEvent list \<Rightarrow> console list
     \<Rightarrow> TimelineEvent list \<times> console list" where
  "collect [] allEvents out = (allEvents, out)"
| "collect ((p, Inr v) # results) allEvents out = collect results (allEvents @ v) out"
| "collect ((p, Inl reason) # results) allEvents out =
     collect results allEvents (out @ [FailedToProcess p reason])"

definition analysisEnabled :: "TimelineConfig \<Rightarrow> bool" where
  "analysisEnabled config =
     (case analysis config of
        None \<Rightarrow> False
      | Some a \<Rightarrow> an_entities a \<or> an_sentiment a \<or> an_topics a)"

text \<open>
  The \<open>catch\<close> clause of \<open>buildTimeline\<close> throws the error again, so the result is a sum;
  the value returned to the caller is the event list alone.
\<close>

definition buildTimeline ::
  "TimelineConfig \<Rightarrow> PlatformConfigs \<Rightarrow> Ingesters \<Rightarrow> nlp_library
     \<Rightarrow> console list \<times> (error + TimelineEvent list)" where
  "buildTimeline config platformConfigs ing lib =
     (let settled = map (processEvents config platformConfigs ing) (platforms config);
          (allEvents, failures) = collect (zip (platforms config) (map snd settled)) [] [];
          out = concat (map fst settled) @ failures;
          sorted = sortMostRecentFirst allEvents
      in if analysisEnabled config
         then (let (nlp_out, annotated) = process lib sorted in (out @ nlp_out, Inr annotated))
         else (out, Inr sorted))"

subsection \<open>The TimelineProcessor of the command-line builder\<close>

text \<open>
  \<open>timeline-builder.ts\<close> imports the \<open>TimelineProcessor\<close> of \<open>./timeline-processor.js\<close>.
  Its \<open>simpleHash\<close>, \<open>deduplicateEvents\<close>, \<open>normalizeTimestamps\<close> and
  \<open>sortEventsByTimestamp\<close> are the functions above, and its \<open>buildTimeline\<close> calls them
  in that order on the events of all platforms. It reads of \<open>platformConfigs\<close> only
  which entries are present. The platforms are ingested one after the other, each inside
  its own \<open>try\<close>; the progress lines it prints are left out.
\<close>

record ConfiguredPlatforms =
  has_twitter :: bool
  has_reddit :: bool
  has_github :: bool
  has_pastebin :: bool

definition ingestFromPlatform ::
  "ConfiguredPlatforms \<Rightarrow> Ingesters \<Rightarrow> string \<Rightarrow> error + TimelineEvent list" where
  "ingestFromPlatform platformConfigs ing p =
     (if p = ''twitter'' then (if has_twitter platformConfigs then ingest ing p else Inr [])
      else if p = ''reddit'' then (if has_reddit platformConfigs then ingest ing p else Inr [])
      else if p = ''github'' then (if has_github platformConfigs then ingest ing p else Inr [])
      else if p = ''rss'' then ingest ing p
      else if p = ''pastebin'' then
        (if has_pastebin platformConfigs then ingest ing p else Inr [])
      else Inr [])"

fun ingestAll ::
  "ConfiguredPlatforms \<Rightarrow> Ingesters \<Rightarrow> TimelineEvent list \<Rightarrow> string list
     \<Rightarrow> TimelineEvent list" where
  "ingestAll platformConfigs ing allEvents [] = allEvents"
| "ingestAll platformConfigs ing allEvents (p # ps) =
     (case ingestFromPlatform platformConfigs ing p of
        Inr events \<Rightarrow> ingestAll platformConfigs ing (allEvents @ events) ps
      | Inl _ \<Rightarrow> ingestAll platformConfigs ing allEvents ps)"

definition buildTimeline_cli ::
  "TimelineConfig \<Rightarrow> ConfiguredPlatforms \<Rightarrow> Ingesters \<Rightarrow> TimelineEvent list" where
  "buildTimeline_cli config platformConfigs ing =
     (let allEvents = ingestAll platformConfigs ing [] (platforms config);
          normalizedEvents = normalizeTimestamps (timezone config) allEvents;
          deduplicatedEvents = deduplicateEvents normalizedEvents;
          sortedEvents = sortEventsByTimestamp deduplicatedEvents
      in sortedEvents)"

subsection \<open>What a platform contributes\<close>

text \<open>
  For the statements about \<open>buildTimeline\<close>: the events a platform contributes to a run
  (those its adapter returned, each with the same instant and the offset of the target zone
  at that instant; none when the platform is rejected), the error with which a platform
  fails, and an event without the annotation of the NLP stage.
\<close>

definition contribution ::
  "TimelineConfig \<Rightarrow> PlatformConfigs \<Rightarrow> Ingesters \<Rightarrow> string \<Rightarrow> TimelineEvent list" where
  "contribution config platformConfigs ing p =
     (case selectIngester platformConfigs p of
        Inl _ \<Rightarrow> []
      | Inr _ \<Rightarrow>
          (case ingest ing p of
             Inl _ \<Rightarrow> []
           | Inr events \<Rightarrow>
               map (\<lambda>event. event\<lparr>timestamp :=
                      \<lparr>millis = millis (timestamp event),
                       offset = timezone config (millis (timestamp event))\<rparr>\<rparr>) events))"

definition failure :: "PlatformConfigs \<Rightarrow> Ingesters \<Rightarrow> string \<Rightarrow> error option" where
  "failure platformConfigs ing p =
     (case selectIngester platformConfigs p of
        Inl e \<Rightarrow> Some e
      | Inr _ \<Rightarrow> (case ingest ing p of Inl e \<Rightarrow> Some e | Inr _ \<Rightarrow> None))"

definition without_nlp :: "TimelineEvent \<Rightarrow> TimelineEvent" where
  "without_nlp event = event\<lparr>metadata := (metadata event)\<lparr>md_nlp := None\<rparr>\<rparr>"

section \<open>NLPProcessor (enrichment stages)\<close>

text \<open>
  The configuration after the constructor has merged the defaults, with the options that
  \<open>processEvents\<close> and its stages read.
\<close>

record NLPConfig =
  languageDetection_enabled :: bool
  entityExtraction_enabled :: bool
  sentimentAnalysis_enabled :: bool
  topicModeling_enabled :: bool
  topicModeling_numTopics :: nat

subsection \<open>Regular-expression classes\<close>

text \<open>\<open>\w\<close> is \<open>[A-Za-z0-9_]\<close>; \<open>\s\<close> is the white space that \<open>trim\<close> removes.\<close>

definition isWordChar :: "char \<Rightarrow> bool" where
  "isWordChar c =
     (let n = (of_char c :: nat) in
      (65 \<le> n \<and> n \<le> 90) \<or> (97 \<le> n \<and> n \<le> 122) \<or> (48 \<le> n \<and> n \<le> 57) \<or> n = 95)"

definition hasCodeUnit :: "(nat \<Rightarrow> bool) \<Rightarrow> string \<Rightarrow> bool" where
  "hasCodeUnit P s = (\<exists>c \<in> set s. P (of_char c))"

text \<open>\<open>match(/\b(\w+)\b/g) || []\<close>: the maximal runs of word characters, in order.\<close>

fun wordRuns :: "string \<Rightarrow> string \<Rightarrow> string list" where
  "wordRuns cur [] = (if cur = [] then [] else [cur])"
| "wordRuns cur (c # cs) =
     (if isWordChar c then wordRuns (cur @ [c]) cs
      else if cur = [] then wordRuns [] cs
      else cur # wordRuns [] cs)"

text \<open>
  \<open>split(/\s+/)\<close>: the pieces between maximal runs of white space; a run at either end
  leaves an empty piece there.
\<close>

function split_ws :: "string \<Rightarrow> string \<Rightarrow> string list" where
  "split_ws cur [] = [cur]"
| "split_ws cur (c # cs) =
     (if isWhiteSpace c then cur # split_ws [] (dropWhile isWhiteSpace cs)
      else split_ws (cur @ [c]) cs)"
  by pat_completeness auto
termination
  by (relation "measure (\<lambda>(cur, s). length s)") (auto simp: length_dropWhile_le less_Suc_eq_le)

subsection \<open>detectLanguage\<close>

definition detectLanguage :: "string \<Rightarrow> string" where
  "detectLanguage text =
     (let characters = toLowerCase text in
      if hasCodeUnit (\<lambda>n. (12352 \<le> n \<and> n \<le> 12447) \<or> (12448 \<le> n \<and> n \<le> 12543)) characters
      then ''ja''
      else if hasCodeUnit (\<lambda>n. 1024 \<le> n \<and> n \<le> 1279) characters then ''ru''
      else if hasCodeUnit (\<lambda>n. 19968 \<le> n \<and> n \<le> 40959) characters then ''zh''
      else if hasCodeUnit (\<lambda>n. 1536 \<le> n \<and> n \<le> 1791) characters then ''ar''
      else if hasCodeUnit (\<lambda>n. n \<in> {225, 233, 237, 243, 250, 252, 241}) characters then ''es''
      else if hasCodeUnit (\<lambda>n. n \<in> {224, 232, 233, 234, 235, 239, 238, 244, 249, 231}) characters
      then ''fr''
      else if hasCodeUnit (\<lambda>n. n \<in> {228, 246, 252, 223}) characters then ''de''
      else ''en'')"

subsection \<open>analyzeSentiment\<close>

definition positiveWords :: "string list" where
  "positiveWords =
     [''good'', ''great'', ''excellent'', ''amazing'', ''awesome'', ''fantastic'', ''wonderful'',
      ''like'', ''love'', ''happy'', ''glad'', ''positive'', ''nice'', ''beautiful'', ''perfect'',
      ''best'', ''better'', ''improved'', ''impressive'', ''thank'', ''thanks'', ''appreciated'',
      ''exciting'', ''excited'', ''win'', ''winning'', ''success'', ''successful'']"

definition negativeWords :: "string list" where
  "negativeWords =
     [''bad'', ''terrible'', ''awful'', ''horrible'', ''worst'', ''poor'', ''negative'',
      ''hate'', ''dislike'', ''sad'', ''unhappy'', ''angry'', ''annoyed'', ''disappointed'',
      ''fail'', ''failed'', ''failure'', ''problem'', ''issue'', ''bug'', ''error'', ''wrong'',
      ''broken'', ''useless'', ''difficult'', ''hard'', ''confusing'', ''frustrated'']"

definition sentimentTokens :: "string \<Rightarrow> string list" where
  "sentimentTokens text = wordRuns [] (toLowerCase text)"

fun countSentiment :: "string list \<Rightarrow> nat \<Rightarrow> nat \<Rightarrow> nat \<times> nat" where
  "countSentiment [] positiveCount negativeCount = (positiveCount, negativeCount)"
| "countSentiment (w # ws) positiveCount negativeCount =
     (if w \<in> set positiveWords then countSentiment ws (positiveCount + 1) negativeCount
      else if w \<in> set negativeWords then countSentiment ws positiveCount (negativeCount + 1)
      else countSentiment ws positiveCount negativeCount)"

text \<open>
  The numbers are rationals. The code computes each quotient of two small integers as the
  nearest double; that rounding is monotone and keeps 0, 1 and -1, and the comparisons
  with the double 0.1 come out as the comparisons of the exact quotient with 1/10 for any
  text of fewer than \<open>10 ^ 15\<close> tokens.
\<close>

definition analyzeSentiment :: "string \<Rightarrow> SentimentScore" where
  "analyzeSentiment text =
     (let ws = sentimentTokens text;
          (positiveCount, negativeCount) = countSentiment ws 0 0;
          totalWords = length ws;
          s = (if totalWords > 0
               then (of_nat positiveCount - of_nat negativeCount)
                      / of_nat (min totalWords (positiveCount + negativeCount + 5))
               else 0);
          m = of_nat (positiveCount + negativeCount) / of_nat (max 1 totalWords) * 5;
          l = (if s > 1 / 10 then positive else if s < - (1 / 10) then negative else neutral)
      in \<lparr>score = max (- 1) (min 1 s), magnitude = m, label = l\<rparr>)"

subsection \<open>modelTopics\<close>

definition stopWords :: "string list" where
  "stopWords =
     [''the'', ''and'', ''that'', ''have'', ''for'', ''not'', ''with'', ''you'', ''this'', ''but'',
      ''his'', ''from'', ''they'', ''she'', ''will'', ''would'', ''there'', ''their'', ''what'',
      ''about'', ''which'', ''when'', ''make'', ''like'', ''time'', ''just'', ''know'', ''take'',
      ''into'', ''year'', ''your'', ''some'', ''could'', ''them'', ''see'', ''other'', ''than'',
      ''then'', ''now'', ''look'', ''only'', ''come'', ''over'', ''think'', ''also'', ''back'',
      ''after'', ''use'', ''two'', ''how'', ''our'', ''work'', ''first'', ''well'', ''way'']"

definition isStopWord :: "string \<Rightarrow> bool" where
  "isStopWord w = (w \<in> set stopWords)"

text \<open>
  \<open>wordCounts\<close> is a \<open>Map\<close>: a new key goes to the end, a known key keeps its place.
\<close>

fun countWords :: "(string \<times> nat) list \<Rightarrow> string list \<Rightarrow> (string \<times> nat) list" where
  "countWords wordCounts [] = wordCounts"
| "countWords wordCounts (token # tokens) =
     countWords
       (AList.update token ((case map_of wordCounts token of None \<Rightarrow> 0 | Some n \<Rightarrow> n) + 1)
          wordCounts)
       tokens"

definition modelTopics :: "NLPConfig \<Rightarrow> string \<Rightarrow> string list" where
  "modelTopics config text =
     (let tokens = filter (\<lambda>w. \<not> isStopWord w)
                     (filter (\<lambda>w. length w > 3)
                        (split_ws []
                           (filter (\<lambda>c. isWordChar c \<or> isWhiteSpace c) (toLowerCase text))));
          wordCounts = countWords [] tokens;
          numTopics = (if topicModeling_numTopics config = 0 then 5
                       else topicModeling_numTopics config)
      in map fst (take numTopics (sort_key (\<lambda>entry. - int (snd entry)) wordCounts)))"

subsection \<open>processEvents\<close>

text \<open>
  \<open>extractEntities\<close> matches six regular expressions against the content; no statement
  below depends on what it finds, so the stage is taken as the function from the content
  to the entities it returns.
\<close>

definition enrichEvent ::
  "NLPConfig \<Rightarrow> (string \<Rightarrow> Entity list) \<Rightarrow> TimelineEvent \<Rightarrow> TimelineEvent" where
  "enrichEvent config extractEntities event =
     (if content event = [] \<or> length (trim (content event)) = 0 then event
      else
        (let e1 = (if languageDetection_enabled config
                   then event\<lparr>language := Some (detectLanguage (content event))\<rparr> else event);
             e2 = (if entityExtraction_enabled config
                   then e1\<lparr>entities := Some (extractEntities (content event))\<rparr> else e1);
             e3 = (if sentimentAnalysis_enabled config
                   then e2\<lparr>sentiment := Some (analyzeSentiment (content event))\<rparr> else e2);
             e4 = (if topicModeling_enabled config
                   then e3\<lparr>topics := Some (modelTopics config (content event))\<rparr> else e3)
         in e4))"

fun NLPProcessor_processEvents_loop ::
  "NLPConfig \<Rightarrow> (string \<Rightarrow> Entity list) \<Rightarrow> TimelineEvent list \<Rightarrow> TimelineEvent list
     \<Rightarrow> TimelineEvent list" where
  "NLPProcessor_processEvents_loop config extractEntities enrichedEvents [] = enrichedEvents"
| "NLPProcessor_processEvents_loop config extractEntities enrichedEvents (event # events) =
     NLPProcessor_processEvents_loop config extractEntities
       (enrichedEvents @ [enrichEvent config extractEntities event]) events"

definition NLPProcessor_processEvents ::
  "NLPConfig \<Rightarrow> (string \<Rightarrow> Entity list) \<Rightarrow> TimelineEvent list \<Rightarrow> TimelineEvent list" where
  "NLPProcessor_processEvents config extractEntities events =
     NLPProcessor_processEvents_loop config extractEntities [] events"




definition all_stages :: NLPConfig where
  "all_stages = \<lparr>languageDetection_enabled = True, entityExtraction_enabled = True,
     sentimentAnalysis_enabled = True, topicModeling_enabled = True,
     topicModeling_numTopics = 5\<rparr>"

section \<open>GeoAnalyzer\<close>


subsection \<open>The location database\<close>












subsection \<open>extractLocationFromMetadata\<close>








subsection \<open>extractLocationFromEntities\<close>


subsection \<open>extractLocationFromContent\<close>





subsection \<open>enhanceEventsWithGeoData\<close>





section \<open>NetworkAnalyzer\<close>

text \<open>
  A property value is a scalar or an array of values. An edge's \<open>properties\<close> object is
  the list of its entries in insertion order; the \<open>edges\<close> map is keyed by the edge
  identifier.
\<close>

datatype pval = PStr string | PNum rat | PArr "pval list"

record NetworkEdge =
  edge_source :: string
  edge_target :: string
  edge_type :: string
  edge_weight :: int
  edge_properties :: "(string \<times> pval) list"

definition isArray :: "pval \<Rightarrow> bool" where
  "isArray v = (case v of PArr _ \<Rightarrow> True | _ \<Rightarrow> False)"

subsection \<open>addOrUpdateEdge\<close>

text \<open>
  \<open>[source, target].sort()\<close> orders the two strings by their code units; the identifier
  is \<open>`${sortedSource}|${type}|${sortedTarget}`\<close>.
\<close>

definition edgeId :: "string \<Rightarrow> string \<Rightarrow> string \<Rightarrow> string" where
  "edgeId source target t =
     (let (sortedSource, sortedTarget) =
            (if target < source then (target, source) else (source, target))
      in sortedSource @ ''|'' @ t @ ''|'' @ sortedTarget)"

definition mergeProperty :: "(string \<times> pval) list \<Rightarrow> string \<times> pval \<Rightarrow> (string \<times> pval) list" where
  "mergeProperty props entry =
     (case entry of (key, v) \<Rightarrow>
        (case map_of props key of
           Some (PArr xs) \<Rightarrow> AList.update key (PArr (xs @ [v])) props
         | Some old \<Rightarrow> AList.update key (PArr [old, v]) props
         | None \<Rightarrow> AList.update key v props))"

definition addOrUpdateEdge ::
  "(string \<rightharpoonup> NetworkEdge) \<Rightarrow> string \<Rightarrow> string \<Rightarrow> string \<Rightarrow> int \<Rightarrow> (string \<times> pval) list
     \<Rightarrow> (string \<rightharpoonup> NetworkEdge)" where
  "addOrUpdateEdge edges source target t w properties =
     (let edgeId = edgeId source target t in
      case edges edgeId of
        Some edge \<Rightarrow>
          edges(edgeId \<mapsto>
            edge\<lparr>edge_weight := edge_weight edge + w,
                 edge_properties := foldl mergeProperty (edge_properties edge) properties\<rparr>)
      | None \<Rightarrow>
          edges(edgeId \<mapsto>
            \<lparr>edge_source = source, edge_target = target, edge_type = t, edge_weight = w,
             edge_properties = properties\<rparr>))"

subsection \<open>processEntityCooccurrences\<close>

definition entityKey :: "Entity \<Rightarrow> string" where
  "entityKey entity = ''entity:'' @ ent_type entity @ '':'' @ ent_text entity"

text \<open>
  \<open>entitySet\<close> is a \<open>Set\<close> and \<open>eventEntityMap\<close> a \<open>Map\<close>: both keep insertion
  order, a known member or key keeps its place.
\<close>

fun collectEntitySet :: "string list \<Rightarrow> Entity list \<Rightarrow> string list" where
  "collectEntitySet entitySet [] = entitySet"
| "collectEntitySet entitySet (entity # ents) =
     (if ent_confidence entity \<ge> 6 / 10
      then collectEntitySet
             (if entityKey entity \<in> set entitySet then entitySet
              else entitySet @ [entityKey entity]) ents
      else collectEntitySet entitySet ents)"

fun collectEventEntities ::
  "(string \<times> string list) list \<Rightarrow> TimelineEvent list \<Rightarrow> (string \<times> string list) list" where
  "collectEventEntities eventEntityMap [] = eventEntityMap"
| "collectEventEntities eventEntityMap (event # events) =
     (case entities event of
        None \<Rightarrow> collectEventEntities eventEntityMap events
      | Some ents \<Rightarrow>
          (if ents = [] then collectEventEntities eventEntityMap events
           else (let entitySet = collectEntitySet [] ents in
                 if length entitySet > 1
                 then collectEventEntities
                        (AList.update (event_id event) entitySet eventEntityMap) events
                 else collectEventEntities eventEntityMap events)))"

fun pairWith ::
  "(string \<rightharpoonup> NetworkEdge) \<Rightarrow> string \<Rightarrow> string \<Rightarrow> string list \<Rightarrow> (string \<rightharpoonup> NetworkEdge)" where
  "pairWith edges eventId x [] = edges"
| "pairWith edges eventId x (y # ys) =
     pairWith (addOrUpdateEdge edges x y ''cooccurs_with'' 1 [(''eventId'', PStr eventId)])
       eventId x ys"

fun allPairs ::
  "(string \<rightharpoonup> NetworkEdge) \<Rightarrow> string \<Rightarrow> string list \<Rightarrow> (string \<rightharpoonup> NetworkEdge)" where
  "allPairs edges eventId [] = edges"
| "allPairs edges eventId (x # entityIds) =
     allPairs (pairWith edges eventId x entityIds) eventId entityIds"

fun cooccurrenceEdges ::
  "(string \<rightharpoonup> NetworkEdge) \<Rightarrow> (string \<times> string list) list \<Rightarrow> (string \<rightharpoonup> NetworkEdge)" where
  "cooccurrenceEdges edges [] = edges"
| "cooccurrenceEdges edges ((eventId, entitySet) # entries) =
     cooccurrenceEdges (allPairs edges eventId entitySet) entries"

definition processEntityCooccurrences ::
  "TimelineEvent list \<Rightarrow> (string \<rightharpoonup> NetworkEdge) \<Rightarrow> (string \<rightharpoonup> NetworkEdge)" where
  "processEntityCooccurrences events edges =
     cooccurrenceEdges edges (collectEventEntities [] events)"

text \<open>
  Every record sits under the identifier of its own endpoints and type.
\<close>

definition keyed :: "(string \<rightharpoonup> NetworkEdge) \<Rightarrow> bool" where
  "keyed edges =
     (\<forall>k e. edges k = Some e \<longrightarrow> k = edgeId (edge_source e) (edge_target e) (edge_type e))"

subsection \<open>Scenario inputs\<close>

definition utc :: zone where
  "utc = (\<lambda>_. 0)"

definition blank_metadata :: Metadata where
  "blank_metadata = \<lparr>md_lat = None, md_lng = None, md_locationName = None, md_geo = None,
     md_subreddit = None, md_nlp = None\<rparr>"

definition mk_event :: "string \<Rightarrow> string \<Rightarrow> int \<Rightarrow> string \<Rightarrow> TimelineEvent" where
  "mk_event i p ms c =
     \<lparr>event_id = i, platform = p, category = ''post'',
      timestamp = \<lparr>millis = ms, offset = 0\<rparr>, originalTimestamp = [], title = [],
      content = c, url = [], username = ''alice'', location = None, entities = None,
      sentiment = None, topics = None, language = None, metadata = blank_metadata\<rparr>"

text \<open>
  Two GitHub events with the content "Pushed 3 commits", at 10 and 14 seconds into the same
  minute, and a Twitter event with another content.
\<close>

definition github_1 :: TimelineEvent where
  "github_1 = mk_event ''g1'' ''github'' 1700000050000 ''Pushed 3 commits''"

definition github_2 :: TimelineEvent where
  "github_2 = mk_event ''g2'' ''github'' 1700000054000 ''Pushed 3 commits''"

definition twitter_1 :: TimelineEvent where
  "twitter_1 = mk_event ''t1'' ''twitter'' 1700000020000 ''Hello world''"

definition scenario_config :: TimelineConfig where
  "scenario_config = \<lparr>config_target = ''alice'', timezone = utc,
     platforms = [''github'', ''twitter''], analysis = None\<rparr>"

definition scenario_platformConfigs :: PlatformConfigs where
  "scenario_platformConfigs = \<lparr>twitter_bearerToken = Some ''token'', reddit_clientId = None,
     reddit_clientSecret = None, pastebin_apiKey = None\<rparr>"

definition scenario_ingesters :: Ingesters where
  "scenario_ingesters = \<lparr>testConnection = (\<lambda>_. None),
     ingest = (\<lambda>p. if p = ''github'' then Inr [github_1, github_2]
                    else if p = ''twitter'' then Inr [twitter_1] else Inr [])\<rparr>"

definition scenario_configured :: ConfiguredPlatforms where
  "scenario_configured = \<lparr>has_twitter = True, has_reddit = False, has_github = True,
     has_pastebin = False\<rparr>"

definition no_nlp :: nlp_library where
  "no_nlp = (\<lambda>_. Inl (Error ''unused''))"

text \<open>The same run with the Twitter adapter rejecting, and with it returning no event.\<close>

definition twitter_down :: Ingesters where
  "twitter_down = \<lparr>testConnection = (\<lambda>_. None),
     ingest = (\<lambda>p. if p = ''github'' then Inr [github_1, github_2]
                    else Inl (Error ''503''))\<rparr>"

definition twitter_silent :: Ingesters where
  "twitter_silent = \<lparr>testConnection = (\<lambda>_. None),
     ingest = (\<lambda>p. if p = ''github'' then Inr [github_1, github_2] else Inr [])\<rparr>"

text \<open>Two events with the same timestamp.\<close>

definition tie_a :: TimelineEvent where
  "tie_a = mk_event ''a'' ''github'' 1700000050000 ''first''"

definition tie_b :: TimelineEvent where
  "tie_b = mk_event ''b'' ''github'' 1700000050000 ''second''"

text \<open>An event whose content is white space only.\<close>

definition blank_event :: TimelineEvent where
  "blank_event = mk_event ''e1'' ''twitter'' 1700000050000 [CHR '' '', CHR 0x09, CHR '' '']"






text \<open>Two events that both mention the organization Acme and the hashtag #launch.\<close>

definition acme :: Entity where
  "acme = \<lparr>ent_text = ''Acme'', ent_type = ''organization'', ent_confidence = 65 / 100,
     ent_lat = None, ent_lng = None\<rparr>"

definition launch :: Entity where
  "launch = \<lparr>ent_text = ''#launch'', ent_type = ''hashtag'', ent_confidence = 95 / 100,
     ent_lat = None, ent_lng = None\<rparr>"

definition acme_event_1 :: TimelineEvent where
  "acme_event_1 = (mk_event ''n1'' ''twitter'' 1700000050000 ''Acme #launch'')
     \<lparr>entities := Some [acme, launch]\<rparr>"

definition acme_event_2 :: TimelineEvent where
  "acme_event_2 = (mk_event ''n2'' ''twitter'' 1700000950000 ''#launch by Acme'')
     \<lparr>entities := Some [launch, acme]\<rparr>"

section \<open>Deduplication: first occurrences\<close>

lemma deduplicate_loop_acc:
  "deduplicate_loop seen acc events = acc @ deduplicate_loop seen [] events"
proof (induction events arbitrary: seen acc)
  case Nil
  show ?case by simp
next
  case (Cons e es)
  have a: "deduplicate_loop (insert (dedupeKey e) seen) (acc @ [e]) es
           = (acc @ [e]) @ deduplicate_loop (insert (dedupeKey e) seen) [] es"
    by (rule Cons.IH)
  have b: "deduplicate_loop (insert (dedupeKey e) seen) ([] @ [e]) es
           = ([] @ [e]) @ deduplicate_loop (insert (dedupeKey e) seen) [] es"
    by (rule Cons.IH)
  have c: "deduplicate_loop seen acc es = acc @ deduplicate_loop seen [] es"
    by (rule Cons.IH)
  show ?case using a b c by simp
qed

lemma deduplicate_loop_Cons:
  "deduplicate_loop seen [] (e # es) =
     (if dedupeKey e \<notin> seen then e # deduplicate_loop (insert (dedupeKey e) seen) [] es
      else deduplicate_loop seen [] es)"
  using deduplicate_loop_acc [of "insert (dedupeKey e) seen" "[e]" es] by simp

lemma deduplicate_loop_keys_fresh:
  "dedupeKey ` set (deduplicate_loop seen [] events) \<inter> seen = {}"
proof (induction events arbitrary: seen)
  case Nil
  show ?case by simp
next
  case (Cons e es)
  show ?case
    using Cons.IH [of seen] Cons.IH [of "insert (dedupeKey e) seen"]
    by (auto simp del: deduplicate_loop.simps simp: deduplicate_loop_Cons)
qed

lemma deduplicate_loop_keys_distinct:
  "distinct (map dedupeKey (deduplicate_loop seen [] events))"
proof (induction events arbitrary: seen)
  case Nil
  show ?case by simp
next
  case (Cons e es)
  show ?case
    using Cons.IH [of seen] Cons.IH [of "insert (dedupeKey e) seen"]
      deduplicate_loop_keys_fresh [of "insert (dedupeKey e) seen" es]
    by (auto simp del: deduplicate_loop.simps simp: deduplicate_loop_Cons)
qed

lemma deduplicate_loop_fixed:
  "distinct (map dedupeKey events) \<Longrightarrow> dedupeKey ` set events \<inter> seen = {}
     \<Longrightarrow> deduplicate_loop seen [] events = events"
proof (induction events arbitrary: seen)
  case Nil
  show ?case by simp
next
  case (Cons e es)
  from Cons.prems have fresh: "dedupeKey e \<notin> seen" by auto
  from Cons.prems have "distinct (map dedupeKey es)"
    and "dedupeKey ` set es \<inter> insert (dedupeKey e) seen = {}" by auto
  then have "deduplicate_loop (insert (dedupeKey e) seen) [] es = es" by (rule Cons.IH)
  with fresh show ?case by (simp del: deduplicate_loop.simps add: deduplicate_loop_Cons)
qed

text \<open>
  C5. Running deduplicateEvents on its own output changes nothing:
  deduplicateEvents (deduplicateEvents xs) = deduplicateEvents xs for every list xs.
\<close>

theorem deduplicateEvents_idempotent:
  "deduplicateEvents (deduplicateEvents xs) = deduplicateEvents xs"
  unfolding deduplicateEvents_def
  by (rule deduplicate_loop_fixed) (simp_all add: deduplicate_loop_keys_distinct)

section \<open>buildTimeline: collected results\<close>

lemma collect_eq:
  "collect rs acc out =
     (acc @ concat (map (\<lambda>(p, r). case r of Inr v \<Rightarrow> v | Inl _ \<Rightarrow> []) rs),
      out @ concat (map (\<lambda>(p, r). case r of Inl e \<Rightarrow> [FailedToProcess p e] | Inr _ \<Rightarrow> []) rs))"
  by (induction rs acc out rule: collect.induct) simp_all

lemma zip_map_self: "zip xs (map f xs) = map (\<lambda>x. (x, f x)) xs"
  by (induction xs) simp_all

lemma snd_processEvents:
  "(case snd (processEvents config platformConfigs ing p) of Inr v \<Rightarrow> v | Inl _ \<Rightarrow> [])
     = contribution config platformConfigs ing p"
  by (simp add: processEvents_def contribution_def setZone_def Let_def split: sum.splits option.splits)

lemma failure_processEvents:
  "(case snd (processEvents config platformConfigs ing p) of Inl e \<Rightarrow> [FailedToProcess p e] | Inr _ \<Rightarrow> [])
     = (case failure platformConfigs ing p of Some e \<Rightarrow> [FailedToProcess p e] | None \<Rightarrow> [])"
  by (simp add: processEvents_def failure_def Let_def split: sum.splits option.splits)

lemma collected_events:
  "fst (collect (zip ps (map snd (map (processEvents config platformConfigs ing) ps))) [] [])
     = concat (map (contribution config platformConfigs ing) ps)"
  by (simp add: collect_eq zip_map_self comp_def snd_processEvents)

lemma collected_failures:
  "snd (collect (zip ps (map snd (map (processEvents config platformConfigs ing) ps))) [] [])
     = concat (map (\<lambda>p. case failure platformConfigs ing p of Some e \<Rightarrow> [FailedToProcess p e] | None \<Rightarrow> []) ps)"
  by (simp add: collect_eq zip_map_self comp_def failure_processEvents)

lemma snd_buildTimeline:
  "snd (buildTimeline config platformConfigs ing lib) =
     Inr (let sorted = sortMostRecentFirst (concat (map (contribution config platformConfigs ing) (platforms config)))
          in if analysisEnabled config then snd (process lib sorted) else sorted)"
  using collected_events [of "platforms config" config platformConfigs ing]
  by (simp add: buildTimeline_def Let_def split_beta)

lemma fst_buildTimeline:
  "fst (buildTimeline config platformConfigs ing lib) =
     concat (map (\<lambda>p. fst (processEvents config platformConfigs ing p)) (platforms config))
     @ concat (map (\<lambda>p. case failure platformConfigs ing p of Some e \<Rightarrow> [FailedToProcess p e] | None \<Rightarrow> []) (platforms config))
     @ (if analysisEnabled config then fst (process lib (sortMostRecentFirst (concat (map (contribution config platformConfigs ing) (platforms config))))) else [])"
  using collected_events [of "platforms config" config platformConfigs ing]
     collected_failures [of "platforms config" config platformConfigs ing]
  by (simp add: buildTimeline_def Let_def split_beta comp_def)

lemma process_without_nlp: "map without_nlp (snd (process lib events)) = map without_nlp events"
  by (simp add: process_def without_nlp_def split: sum.splits)

lemma process_timestamps: "map timestamp (snd (process lib events)) = map timestamp events"
  by (simp add: process_def comp_def split: sum.splits)

lemma process_length: "length (snd (process lib events)) = length events"
  by (simp add: process_def split: sum.splits)



lemma startOf_minute_key:
  "toISO (startOf_minute dt) = (60000 * ((millis dt) div 60000) + offset dt * 60000, offset dt)"
proof -
  have "(millis dt + offset dt * 60000) mod 60000 = millis dt mod 60000" by simp
  moreover have "millis dt - millis dt mod 60000 = 60000 * (millis dt div 60000)"
    by (simp add: minus_mod_eq_mult_div)
  ultimately show ?thesis by (simp add: toISO_def startOf_minute_def)
qed

lemma dedupeKey_eq_iff:
  assumes "platform a = platform b"
    and "trim (toLowerCase (content a)) = trim (toLowerCase (content b))"
    and "offset (timestamp a) = offset (timestamp b)"
  shows "dedupeKey a = dedupeKey b \<longleftrightarrow>
           millis (timestamp a) div 60000 = millis (timestamp b) div 60000"
  using assms by (simp add: dedupeKey_def Let_def startOf_minute_key)

lemma deduplicate_loop_snoc:
  "deduplicate_loop seen [] (xs @ [b]) =
     deduplicate_loop seen [] xs @ (if dedupeKey b \<in> seen \<union> dedupeKey ` set xs then [] else [b])"
proof (induction xs arbitrary: seen)
  case Nil
  show ?case by simp
next
  case (Cons e es)
  show ?case
    using Cons.IH [of seen] Cons.IH [of "insert (dedupeKey e) seen"]
    by (simp del: deduplicate_loop.simps add: deduplicate_loop_Cons)
qed

text \<open>
  C4. Two events with the same platform and the same normalized content (lower-cased and
  trimmed), expressed in the same zone: when their timestamps fall within the same minute,
  deduplicateEvents keeps exactly one of them (the first; in any list, the later one adds
  nothing once the earlier one has been seen); when their timestamps fall in different
  minutes, it keeps both.
\<close>

theorem deduplicateEvents_same_minute:
  assumes "platform a = platform b"
    and "trim (toLowerCase (content a)) = trim (toLowerCase (content b))"
    and "offset (timestamp a) = offset (timestamp b)"
  shows "(millis (timestamp a) div 60000 = millis (timestamp b) div 60000
            \<longrightarrow> deduplicateEvents [a, b] = [a]
              \<and> deduplicateEvents (xs @ a # ys @ [b]) = deduplicateEvents (xs @ a # ys))
       \<and> (millis (timestamp a) div 60000 \<noteq> millis (timestamp b) div 60000
            \<longrightarrow> deduplicateEvents [a, b] = [a, b])"
proof -
  have k: "dedupeKey a = dedupeKey b \<longleftrightarrow>
           millis (timestamp a) div 60000 = millis (timestamp b) div 60000"
    using assms by (rule dedupeKey_eq_iff)
  have two: "deduplicateEvents [a, b] = (if dedupeKey a = dedupeKey b then [a] else [a, b])"
    by (auto simp: deduplicateEvents_def)
  have "xs @ a # ys @ [b] = (xs @ a # ys) @ [b]" by simp
  then have long: "dedupeKey a = dedupeKey b \<Longrightarrow>
      deduplicateEvents (xs @ a # ys @ [b]) = deduplicateEvents (xs @ a # ys)"
    unfolding deduplicateEvents_def
    by (simp only: deduplicate_loop_snoc) auto
  show ?thesis using k two long by simp
qed

lemma sort_key_permutation:
  assumes "mset xs = mset ys" and "distinct (map f xs)"
  shows "sort_key f xs = sort_key f ys"
proof -
  have inj: "inj_on f (set xs)" using assms(2) by (simp add: distinct_map)
  have sets: "set ys = set xs" using assms(1) by (metis set_mset_mset)
  have "mset (map f xs) = mset (map f ys)" using assms(1) by simp
  then have dys: "distinct (map f ys)" using assms(2) by (metis mset_eq_imp_distinct_iff)
  have a: "sorted (map f (sort_key f xs))" "sorted (map f (sort_key f ys))" by simp_all
  have b: "distinct (map f (sort_key f xs))" using assms(2) by (simp add: distinct_map)
  have c: "distinct (map f (sort_key f ys))" using dys by (simp add: distinct_map)
  have "set (map f (sort_key f xs)) = set (map f (sort_key f ys))" using sets by simp
  with a b c have "map f (sort_key f xs) = map f (sort_key f ys)"
    by (rule_tac sorted_distinct_set_unique)
  moreover have "inj_on f (set (sort_key f xs) \<union> set (sort_key f ys))" using inj sets by simp
  ultimately show ?thesis by (simp add: inj_on_map_eq_map)
qed


lemma sortMostRecentFirst_descending:
  "sorted (rev (map (\<lambda>e. toMillis (timestamp e)) (sortMostRecentFirst xs)))"
proof -
  have "sorted (map (\<lambda>e. - toMillis (timestamp e)) (sortMostRecentFirst xs))"
    unfolding sortMostRecentFirst_def by (rule sorted_sort_key)
  then have "sorted_wrt (\<lambda>x y. toMillis (timestamp y) \<le> toMillis (timestamp x)) (sortMostRecentFirst xs)"
    by (simp add: sorted_wrt_map)
  then show ?thesis by (simp add: sorted_wrt_rev sorted_wrt_map flip: rev_map)
qed

lemma ingestAll_eq:
  "ingestAll platformConfigs ing acc ps =
     acc @ concat (map (\<lambda>p. case ingestFromPlatform platformConfigs ing p of
                               Inr events \<Rightarrow> events | Inl _ \<Rightarrow> []) ps)"
  by (induction ps arbitrary: acc) (simp_all split: sum.splits)

lemma sorted_sortEventsByTimestamp:
  "sorted (map (\<lambda>e. toMillis (timestamp e)) (sortEventsByTimestamp xs))"
  unfolding sortEventsByTimestamp_def by (rule sorted_sort_key)

text \<open>
  C2 (amended). The chronological merge of the pipeline, sortEventsByTimestamp, returns
  the events in ascending order of timestamp, and so does buildTimeline, which ends with
  it. The merge is a permutation of its input and keeps events with equal timestamps in
  their input order: ties are not broken by (platform, id). Two permutations of the same
  events yield the identical output whenever the timestamps are pairwise distinct.
\<close>

theorem sort_by_timestamp_stable:
  "sorted (map (\<lambda>e. toMillis (timestamp e)) (sortEventsByTimestamp xs))
   \<and> mset (sortEventsByTimestamp xs) = mset xs
   \<and> (\<forall>k. filter (\<lambda>e. toMillis (timestamp e) = k) (sortEventsByTimestamp xs)
             = filter (\<lambda>e. toMillis (timestamp e) = k) xs)
   \<and> (mset xs = mset ys \<and> distinct (map (\<lambda>e. toMillis (timestamp e)) xs)
        \<longrightarrow> sortEventsByTimestamp xs = sortEventsByTimestamp ys)
   \<and> sorted (map (\<lambda>e. toMillis (timestamp e)) (buildTimeline_cli config platformConfigs ing))"
proof -
  have s1: "\<forall>k. filter (\<lambda>e. toMillis (timestamp e) = k) (sortEventsByTimestamp xs)
             = filter (\<lambda>e. toMillis (timestamp e) = k) xs"
    unfolding sortEventsByTimestamp_def by (simp add: sort_key_stable)
  have p: "mset xs = mset ys \<and> distinct (map (\<lambda>e. toMillis (timestamp e)) xs)
        \<longrightarrow> sortEventsByTimestamp xs = sortEventsByTimestamp ys"
    unfolding sortEventsByTimestamp_def by (auto intro: sort_key_permutation)
  have a: "sorted (map (\<lambda>e. toMillis (timestamp e)) (sortEventsByTimestamp xs))"
    by (rule sorted_sortEventsByTimestamp)
  have m: "mset (sortEventsByTimestamp xs) = mset xs"
    by (simp add: sortEventsByTimestamp_def)
  have b: "sorted (map (\<lambda>e. toMillis (timestamp e))
             (buildTimeline_cli config platformConfigs ing))"
    by (simp add: buildTimeline_cli_def Let_def sorted_sortEventsByTimestamp)
  show ?thesis using a m s1 p b by blast
qed

text \<open>
  C2 as stated fails: two events with the same timestamp come out in the order they went
  in, so the event with the larger (platform, id) can come first and two permutations of
  the same input give two different outputs.
\<close>

theorem sort_tie_break_counterexample:
  "sortEventsByTimestamp [tie_b, tie_a] = [tie_b, tie_a]
   \<and> sortEventsByTimestamp [tie_a, tie_b] = [tie_a, tie_b]
   \<and> platform tie_a = platform tie_b \<and> event_id tie_a < event_id tie_b"
  by (simp add: sortEventsByTimestamp_def tie_a_def tie_b_def mk_event_def toMillis_def)

lemma timezone_contribution:
  "e \<in> set (contribution config platformConfigs ing p)
     \<Longrightarrow> offset (timestamp e) = timezone config (millis (timestamp e))"
  by (auto simp: contribution_def split: sum.splits)

lemma set_sortMostRecentFirst: "set (sortMostRecentFirst xs) = set xs"
  by (simp add: sortMostRecentFirst_def)

lemma mset_sortMostRecentFirst: "mset (sortMostRecentFirst xs) = mset xs"
  by (simp add: sortMostRecentFirst_def)

lemma returned_events:
  "\<exists>evs. snd (buildTimeline config platformConfigs ing lib) = Inr evs
     \<and> map without_nlp evs = map without_nlp (sortMostRecentFirst
          (concat (map (contribution config platformConfigs ing) (platforms config))))
     \<and> map timestamp evs = map timestamp (sortMostRecentFirst
          (concat (map (contribution config platformConfigs ing) (platforms config))))"
  by (simp add: snd_buildTimeline Let_def process_without_nlp process_timestamps)

text \<open>
  C9. buildTimeline always returns; the returned events are, up to the order and the NLP
  annotation, exactly the concatenation of what the platforms contribute: a platform that
  fails contributes no event and every event returned by a successful adapter is there.
  Each returned timestamp carries the offset of the target zone, and the contribution of a
  successful platform keeps the instant of every event.
\<close>

theorem buildTimeline_isolates_failures:
  "\<exists>evs. snd (buildTimeline config platformConfigs ing lib) = Inr evs
     \<and> mset (map without_nlp evs) = mset (map without_nlp
          (concat (map (contribution config platformConfigs ing) (platforms config))))
     \<and> (\<forall>e \<in> set evs. offset (timestamp e) = timezone config (millis (timestamp e)))
     \<and> (\<forall>p. failure platformConfigs ing p \<noteq> None
            \<longrightarrow> contribution config platformConfigs ing p = [])
     \<and> (\<forall>p events. selectIngester platformConfigs p = Inr () \<and> ingest ing p = Inr events
            \<longrightarrow> contribution config platformConfigs ing p =
                  map (\<lambda>event. event\<lparr>timestamp :=
                         \<lparr>millis = millis (timestamp event),
                          offset = timezone config (millis (timestamp event))\<rparr>\<rparr>) events)"
proof -
  let ?all = "concat (map (contribution config platformConfigs ing) (platforms config))"
  obtain evs where r: "snd (buildTimeline config platformConfigs ing lib) = Inr evs"
    and w: "map without_nlp evs = map without_nlp (sortMostRecentFirst ?all)"
    and t: "map timestamp evs = map timestamp (sortMostRecentFirst ?all)"
    using returned_events by blast
  have "mset (map without_nlp evs) = image_mset without_nlp (mset (sortMostRecentFirst ?all))"
    using w by simp
  then have m: "mset (map without_nlp evs) = mset (map without_nlp ?all)"
    by (simp add: mset_sortMostRecentFirst)
  have "\<forall>ts \<in> set (map timestamp ?all). offset ts = timezone config (millis ts)"
    by (auto dest: timezone_contribution)
  moreover have "set (map timestamp evs) = set (map timestamp ?all)"
    using t by (simp add: set_sortMostRecentFirst del: set_concat)
  ultimately have z: "\<forall>e \<in> set evs. offset (timestamp e) = timezone config (millis (timestamp e))"
    by (metis (no_types, lifting) image_eqI list.set_map)
  have f: "\<forall>p. failure platformConfigs ing p \<noteq> None
            \<longrightarrow> contribution config platformConfigs ing p = []"
    by (auto simp: failure_def contribution_def split: sum.splits)
  have c: "\<forall>p events. selectIngester platformConfigs p = Inr () \<and> ingest ing p = Inr events
            \<longrightarrow> contribution config platformConfigs ing p =
                  map (\<lambda>event. event\<lparr>timestamp :=
                         \<lparr>millis = millis (timestamp event),
                          offset = timezone config (millis (timestamp event))\<rparr>\<rparr>) events"
    by (simp add: contribution_def)
  show ?thesis using r m z f c by blast
qed

section \<open>buildTimeline on the scenarios\<close>

lemmas scenario_defs = scenario_config_def scenario_platformConfigs_def scenario_ingesters_def
  utc_def github_1_def github_2_def twitter_1_def mk_event_def twitter_down_def
  twitter_silent_def blank_metadata_def

lemma scenario_selectIngester:
  "selectIngester scenario_platformConfigs ''github'' = Inr ()"
  "selectIngester scenario_platformConfigs ''twitter'' = Inr ()"
  by (simp_all add: selectIngester_def scenario_platformConfigs_def falsy_def)

lemma scenario_contribution:
  "contribution scenario_config scenario_platformConfigs scenario_ingesters ''github''
     = [github_1, github_2]"
  "contribution scenario_config scenario_platformConfigs scenario_ingesters ''twitter''
     = [twitter_1]"
  "contribution scenario_config scenario_platformConfigs twitter_down ''github''
     = [github_1, github_2]"
  "contribution scenario_config scenario_platformConfigs twitter_down ''twitter'' = []"
  "contribution scenario_config scenario_platformConfigs twitter_silent ''github''
     = [github_1, github_2]"
  "contribution scenario_config scenario_platformConfigs twitter_silent ''twitter'' = []"
  by (simp_all add: contribution_def scenario_selectIngester) (simp_all add: scenario_defs)

lemma scenario_sorted:
  "sortMostRecentFirst [github_1, github_2, twitter_1] = [github_2, github_1, twitter_1]"
  "sortMostRecentFirst [github_1, github_2] = [github_2, github_1]"
  by (simp_all add: sortMostRecentFirst_def toMillis_def scenario_defs)

lemma scenario_platforms: "platforms scenario_config = [''github'', ''twitter'']"
  "analysisEnabled scenario_config = False"
  by (simp_all add: scenario_config_def analysisEnabled_def)

text \<open>
  C1. Given the three raw events of the scenario (two GitHub events with the content
  "Pushed 3 commits", 4 seconds apart inside one minute, and a Twitter event with another
  content), with the target zone keeping one offset through that minute, buildTimeline
  returns exactly two events, the earlier one first: the first GitHub event and the
  Twitter event, both expressed in the target zone. Deduplication has removed the second
  GitHub event.
\<close>

theorem buildTimeline_scenario:
  assumes "platforms config = [''github'', ''twitter'']"
    and "has_github platformConfigs" and "has_twitter platformConfigs"
    and "ingest ing ''github'' = Inr [a, b]" and "ingest ing ''twitter'' = Inr [c]"
    and "platform a = ''github''" and "platform b = ''github''" and "platform c = ''twitter''"
    and "content a = ''Pushed 3 commits''" and "content b = ''Pushed 3 commits''"
    and "content c \<noteq> ''Pushed 3 commits''"
    and "millis (timestamp b) = millis (timestamp a) + 4000"
    and "millis (timestamp a) div 60000 = millis (timestamp b) div 60000"
    and "timezone config (millis (timestamp a)) = timezone config (millis (timestamp b))"
  shows "\<exists>x y. buildTimeline_cli config platformConfigs ing = [x, y]
           \<and> toMillis (timestamp x) \<le> toMillis (timestamp y)
           \<and> mset [x, y] = mset [a\<lparr>timestamp := setZone (timezone config) (timestamp a)\<rparr>,
                                  c\<lparr>timestamp := setZone (timezone config) (timestamp c)\<rparr>]"
proof -
  let ?a = "a\<lparr>timestamp := setZone (timezone config) (timestamp a)\<rparr>"
  let ?b = "b\<lparr>timestamp := setZone (timezone config) (timestamp b)\<rparr>"
  let ?c = "c\<lparr>timestamp := setZone (timezone config) (timestamp c)\<rparr>"
  have raw: "ingestAll platformConfigs ing [] (platforms config) = [a, b, c]"
    using assms(1-5) by (simp add: ingestAll_eq ingestFromPlatform_def)
  have n: "normalizeTimestamps (timezone config) [a, b, c] = [?a, ?b, ?c]"
    by (simp add: normalizeTimestamps_def)
  have "dedupeKey ?a = dedupeKey ?b \<longleftrightarrow>
           millis (timestamp ?a) div 60000 = millis (timestamp ?b) div 60000"
    using assms(6,7,9,10,14) by (intro dedupeKey_eq_iff) (simp_all add: setZone_def)
  then have ab: "dedupeKey ?a = dedupeKey ?b" using assms(13) by (simp add: setZone_def)
  have ac: "dedupeKey ?a \<noteq> dedupeKey ?c" using assms(6,8) by (simp add: dedupeKey_def Let_def)
  have d: "deduplicateEvents [?a, ?b, ?c] = [?a, ?c]"
    using ab ac by (simp add: deduplicateEvents_def)
  have r: "buildTimeline_cli config platformConfigs ing = sortEventsByTimestamp [?a, ?c]"
    by (simp only: buildTimeline_cli_def Let_def raw n d)
  show ?thesis
  proof (cases "toMillis (timestamp ?a) \<le> toMillis (timestamp ?c)")
    case True
    then have "sortEventsByTimestamp [?a, ?c] = [?a, ?c]"
      by (simp add: sortEventsByTimestamp_def)
    with r True show ?thesis by auto
  next
    case False
    then have "sortEventsByTimestamp [?a, ?c] = [?c, ?a]"
      by (simp add: sortEventsByTimestamp_def)
    with r False show ?thesis by auto
  qed
qed

text \<open>
  C1, at the scenario input: the Twitter event, which is the earliest, comes first.
\<close>

theorem buildTimeline_scenario_witness:
  "platforms scenario_config = [''github'', ''twitter'']
   \<and> has_github scenario_configured \<and> has_twitter scenario_configured
   \<and> ingest scenario_ingesters ''github'' = Inr [github_1, github_2]
   \<and> ingest scenario_ingesters ''twitter'' = Inr [twitter_1]
   \<and> platform github_1 = ''github'' \<and> platform github_2 = ''github''
   \<and> platform twitter_1 = ''twitter''
   \<and> content github_1 = ''Pushed 3 commits'' \<and> content github_2 = ''Pushed 3 commits''
   \<and> content twitter_1 \<noteq> ''Pushed 3 commits''
   \<and> millis (timestamp github_2) = millis (timestamp github_1) + 4000
   \<and> millis (timestamp github_1) div 60000 = millis (timestamp github_2) div 60000
   \<and> timezone scenario_config (millis (timestamp github_1))
       = timezone scenario_config (millis (timestamp github_2))
   \<and> buildTimeline_cli scenario_config scenario_configured scenario_ingesters
       = [twitter_1, github_1]"
proof -
  have h: "platforms scenario_config = [''github'', ''twitter'']"
    "has_github scenario_configured" "has_twitter scenario_configured"
    "ingest scenario_ingesters ''github'' = Inr [github_1, github_2]"
    "ingest scenario_ingesters ''twitter'' = Inr [twitter_1]"
    "platform github_1 = ''github''" "platform github_2 = ''github''"
    "platform twitter_1 = ''twitter''"
    "content github_1 = ''Pushed 3 commits''" "content github_2 = ''Pushed 3 commits''"
    "content twitter_1 \<noteq> ''Pushed 3 commits''"
    "millis (timestamp github_2) = millis (timestamp github_1) + 4000"
    "millis (timestamp github_1) div 60000 = millis (timestamp github_2) div 60000"
    "timezone scenario_config (millis (timestamp github_1))
       = timezone scenario_config (millis (timestamp github_2))"
    by (simp_all add: scenario_defs scenario_configured_def)
  have z: "github_1\<lparr>timestamp := setZone (timezone scenario_config) (timestamp github_1)\<rparr>
             = github_1"
    "twitter_1\<lparr>timestamp := setZone (timezone scenario_config) (timestamp twitter_1)\<rparr>
             = twitter_1"
    by (simp_all add: scenario_defs setZone_def)
  obtain x y where r: "buildTimeline_cli scenario_config scenario_configured scenario_ingesters
        = [x, y]"
    and o: "toMillis (timestamp x) \<le> toMillis (timestamp y)"
    and m: "mset [x, y] = mset [github_1, twitter_1]"
    using buildTimeline_scenario [OF h] unfolding z by blast
  have lt: "toMillis (timestamp twitter_1) < toMillis (timestamp github_1)"
    by (simp add: scenario_defs toMillis_def)
  from m have "(x = github_1 \<and> y = twitter_1) \<or> (x = twitter_1 \<and> y = github_1)"
    by (auto simp: add_eq_conv_ex)
  with o lt have "x = twitter_1 \<and> y = github_1" by auto
  with r h show ?thesis by simp
qed

text \<open>
  The \<open>TimelineProcessor\<close> under \<open>processors/\<close>, which no entry point imports, does
  not call \<open>deduplicateEvents\<close> and sorts the other way round: on the same input it
  returns all three events, the latest one first.
\<close>

lemma buildTimeline_processors_scenario:
  "snd (buildTimeline scenario_config scenario_platformConfigs scenario_ingesters no_nlp)
     = Inr [github_2, github_1, twitter_1]"
  by (simp add: snd_buildTimeline scenario_platforms scenario_contribution scenario_sorted)


text \<open>
  C3 (amended). buildTimeline never throws when adapters fail: it returns the events of
  the adapters that succeeded, each expressed in the target zone, in some order and
  possibly annotated by the NLP stage; a platform that fails contributes no event. The
  value returned is the event list alone; each failed platform is reported, with its
  error, on the console.
\<close>

theorem buildTimeline_never_throws:
  "\<exists>evs. snd (buildTimeline config platformConfigs ing lib) = Inr evs
     \<and> mset (map without_nlp evs) = mset (map without_nlp
          (concat (map (contribution config platformConfigs ing) (platforms config))))
     \<and> length evs = length (concat (map (contribution config platformConfigs ing) (platforms config)))
     \<and> (\<forall>p. failure platformConfigs ing p \<noteq> None
            \<longrightarrow> contribution config platformConfigs ing p = [])
     \<and> (\<forall>p events. selectIngester platformConfigs p = Inr () \<and> ingest ing p = Inr events
            \<longrightarrow> contribution config platformConfigs ing p =
                  map (\<lambda>event. event\<lparr>timestamp := setZone (timezone config) (timestamp event)\<rparr>)
                    events)
     \<and> (\<forall>p \<in> set (platforms config). \<forall>e. failure platformConfigs ing p = Some e
           \<longrightarrow> FailedToProcess p e \<in> set (fst (buildTimeline config platformConfigs ing lib)))"
proof -
  let ?all = "concat (map (contribution config platformConfigs ing) (platforms config))"
  obtain evs where r: "snd (buildTimeline config platformConfigs ing lib) = Inr evs"
    and w: "map without_nlp evs = map without_nlp (sortMostRecentFirst ?all)"
    and t: "map timestamp evs = map timestamp (sortMostRecentFirst ?all)"
    using returned_events by blast
  have "mset (map without_nlp evs) = image_mset without_nlp (mset (sortMostRecentFirst ?all))"
    using w by simp
  then have m: "mset (map without_nlp evs) = mset (map without_nlp ?all)"
    by (simp add: mset_sortMostRecentFirst)
  have "length (map timestamp evs) = length (map timestamp (sortMostRecentFirst ?all))"
    unfolding t ..
  then have l: "length evs = length ?all"
    by (simp add: sortMostRecentFirst_def)
  have f: "\<forall>p. failure platformConfigs ing p \<noteq> None
            \<longrightarrow> contribution config platformConfigs ing p = []"
    by (auto simp: failure_def contribution_def split: sum.splits)
  have c: "\<forall>p events. selectIngester platformConfigs p = Inr () \<and> ingest ing p = Inr events
            \<longrightarrow> contribution config platformConfigs ing p =
                  map (\<lambda>event. event\<lparr>timestamp := setZone (timezone config) (timestamp event)\<rparr>)
                    events"
    by (simp add: contribution_def setZone_def)
  have g: "\<forall>p \<in> set (platforms config). \<forall>e. failure platformConfigs ing p = Some e
           \<longrightarrow> FailedToProcess p e \<in> set (fst (buildTimeline config platformConfigs ing lib))"
    unfolding fst_buildTimeline by force
  show ?thesis using r m l f c g by blast
qed

text \<open>
  C3 (amended), at a run where the Twitter adapter is rejected.
\<close>

theorem buildTimeline_never_throws_witness:
  "''twitter'' \<in> set (platforms scenario_config)
   \<and> failure scenario_platformConfigs twitter_down ''twitter'' = Some (Error ''503'')
   \<and> contribution scenario_config scenario_platformConfigs twitter_down ''twitter'' = []
   \<and> FailedToProcess ''twitter'' (Error ''503'')
        \<in> set (fst (buildTimeline scenario_config scenario_platformConfigs twitter_down no_nlp))
   \<and> (\<exists>evs. snd (buildTimeline scenario_config scenario_platformConfigs twitter_down no_nlp)
               = Inr evs
         \<and> mset (map without_nlp evs) = mset (map without_nlp [github_1, github_2]))"
proof -
  have h: "''twitter'' \<in> set (platforms scenario_config)"
    "failure scenario_platformConfigs twitter_down ''twitter'' = Some (Error ''503'')"
    by (simp_all add: scenario_platforms failure_def scenario_selectIngester twitter_down_def)
  have c: "concat (map (contribution scenario_config scenario_platformConfigs twitter_down)
             (platforms scenario_config)) = [github_1, github_2]"
    by (simp add: scenario_platforms scenario_contribution)
  show ?thesis
    using h buildTimeline_never_throws
      [of scenario_config scenario_platformConfigs twitter_down no_nlp]
    unfolding c by blast
qed

text \<open>
  C3 as stated fails: no list of (platform, error) pairs is returned. The run in which the
  Twitter adapter fails and the run in which it returns no event give the caller the same
  value.
\<close>

theorem buildTimeline_warnings_counterexample:
  "ingest twitter_down ''twitter'' = Inl (Error ''503'')
   \<and> ingest twitter_silent ''twitter'' = Inr []
   \<and> snd (buildTimeline scenario_config scenario_platformConfigs twitter_down no_nlp)
       = Inr [github_2, github_1]
   \<and> snd (buildTimeline scenario_config scenario_platformConfigs twitter_silent no_nlp)
       = Inr [github_2, github_1]"
  by (simp add: snd_buildTimeline scenario_platforms scenario_contribution scenario_sorted)
     (simp add: twitter_down_def twitter_silent_def)

text \<open>
  C4, at the two GitHub events of the scenario.
\<close>

theorem deduplicateEvents_same_minute_witness:
  "platform github_1 = platform github_2
   \<and> trim (toLowerCase (content github_1)) = trim (toLowerCase (content github_2))
   \<and> offset (timestamp github_1) = offset (timestamp github_2)
   \<and> millis (timestamp github_1) div 60000 = millis (timestamp github_2) div 60000
   \<and> deduplicateEvents [github_1, github_2] = [github_1]
   \<and> deduplicateEvents ([twitter_1] @ github_1 # [twitter_1] @ [github_2])
       = deduplicateEvents ([twitter_1] @ github_1 # [twitter_1])"
proof -
  have h: "platform github_1 = platform github_2"
    "trim (toLowerCase (content github_1)) = trim (toLowerCase (content github_2))"
    "offset (timestamp github_1) = offset (timestamp github_2)"
    by (simp_all add: scenario_defs)
  have m: "millis (timestamp github_1) div 60000 = millis (timestamp github_2) div 60000"
    by (simp add: scenario_defs)
  show ?thesis
    using h m deduplicateEvents_same_minute [OF h, of "[twitter_1]" "[twitter_1]"] by blast
qed

text \<open>
  C2 (amended), at two events with distinct timestamps.
\<close>

theorem sort_by_timestamp_stable_witness:
  "mset [github_1, twitter_1] = mset [twitter_1, github_1]
   \<and> distinct (map (\<lambda>e. toMillis (timestamp e)) [github_1, twitter_1])
   \<and> sortEventsByTimestamp [github_1, twitter_1] = sortEventsByTimestamp [twitter_1, github_1]"
proof -
  have h: "mset [github_1, twitter_1] = mset [twitter_1, github_1]"
    "distinct (map (\<lambda>e. toMillis (timestamp e)) [github_1, twitter_1])"
    by (simp_all add: scenario_defs toMillis_def)
  show ?thesis
    using h sort_by_timestamp_stable [of "[github_1, twitter_1]" "[twitter_1, github_1]"]
    by blast
qed

text \<open>
  C9, at a run where the Twitter adapter is rejected.
\<close>

theorem buildTimeline_isolates_failures_witness:
  "failure scenario_platformConfigs twitter_down ''twitter'' \<noteq> None
   \<and> contribution scenario_config scenario_platformConfigs twitter_down ''twitter'' = []
   \<and> selectIngester scenario_platformConfigs ''github'' = Inr ()
   \<and> ingest twitter_down ''github'' = Inr [github_1, github_2]
   \<and> (\<exists>evs. snd (buildTimeline scenario_config scenario_platformConfigs twitter_down no_nlp)
               = Inr evs
         \<and> evs \<noteq> []
         \<and> (\<forall>e \<in> set evs. offset (timestamp e) = timezone scenario_config (millis (timestamp e))))"
proof -
  have h: "failure scenario_platformConfigs twitter_down ''twitter'' \<noteq> None"
    "selectIngester scenario_platformConfigs ''github'' = Inr ()"
    "ingest twitter_down ''github'' = Inr [github_1, github_2]"
    by (simp_all add: failure_def scenario_selectIngester twitter_down_def)
  have c: "concat (map (contribution scenario_config scenario_platformConfigs twitter_down)
             (platforms scenario_config)) = [github_1, github_2]"
    by (simp add: scenario_platforms scenario_contribution)
  obtain evs where
    r: "snd (buildTimeline scenario_config scenario_platformConfigs twitter_down no_nlp) = Inr evs"
    and m: "mset (map without_nlp evs) = mset (map without_nlp
          (concat (map (contribution scenario_config scenario_platformConfigs twitter_down)
             (platforms scenario_config))))"
    and z: "\<forall>e \<in> set evs. offset (timestamp e) = timezone scenario_config (millis (timestamp e))"
    and f: "\<forall>p. failure scenario_platformConfigs twitter_down p \<noteq> None
            \<longrightarrow> contribution scenario_config scenario_platformConfigs twitter_down p = []"
    using buildTimeline_isolates_failures
      [of scenario_config scenario_platformConfigs twitter_down no_nlp] by blast
  from m have "evs \<noteq> []" unfolding c by auto
  with h r z f show ?thesis by blast
qed

section \<open>Sentiment scores and blank contents\<close>









lemma processEvents_loop_map:
  "NLPProcessor_processEvents_loop config extractEntities acc events
     = acc @ map (enrichEvent config extractEntities) events"
  by (induction events arbitrary: acc) simp_all

lemma trim_blank: "\<forall>c \<in> set s. isWhiteSpace c \<Longrightarrow> trim s = []"
proof -
  assume "\<forall>c \<in> set s. isWhiteSpace c"
  then have d: "dropWhile isWhiteSpace s = []" by simp
  have "trim s = rev (dropWhile isWhiteSpace (rev []))" by (simp only: trim_def d)
  then show ?thesis by simp
qed

text \<open>
  C10. processEvents of the NLP processor returns one event per input event, and an event
  whose content is empty or white space only comes out equal to the input event in every
  field: no language, entities, sentiment or topics are added, whatever stages are
  enabled.
\<close>

theorem blank_content_passes_unchanged:
  assumes "i < length events"
    and "\<forall>c \<in> set (content (events ! i)). isWhiteSpace c"
  shows "length (NLPProcessor_processEvents config extractEntities events) = length events
         \<and> NLPProcessor_processEvents config extractEntities events ! i = events ! i"
proof -
  have "enrichEvent config extractEntities (events ! i) = events ! i"
    using assms(2) by (simp add: enrichEvent_def trim_blank)
  with assms(1) show ?thesis
    by (simp add: NLPProcessor_processEvents_def processEvents_loop_map)
qed

text \<open>
  C10, at an event holding two spaces and a tab, with every stage enabled.
\<close>

theorem blank_content_passes_unchanged_witness:
  "0 < length [blank_event]
   \<and> list_all isWhiteSpace (content ([blank_event] ! 0))
   \<and> content blank_event \<noteq> []
   \<and> NLPProcessor_processEvents all_stages (\<lambda>_. []) [blank_event] ! 0 = [blank_event] ! 0"
proof -
  have h: "0 < length [blank_event]"
    "\<forall>c \<in> set (content ([blank_event] ! 0)). isWhiteSpace c"
    by (simp_all add: blank_event_def mk_event_def isWhiteSpace_def)
  have n: "content blank_event \<noteq> []" by (simp add: blank_event_def mk_event_def)
  show ?thesis
    using h n blank_content_passes_unchanged [OF h, of all_stages "\<lambda>_. []"]
    by (simp add: list_all_iff)
qed

section \<open>Locations are only taken from a signal\<close>












section \<open>One record per pair of endpoints\<close>

lemma edgeId_sym: "edgeId a b t = edgeId b a t"
proof -
  consider "a < b" | "b < a" | "a = b" by (metis linorder_less_linear)
  then show ?thesis
  proof cases
    case 1
    then have "\<not> b < a" by simp
    with 1 show ?thesis by (simp add: edgeId_def)
  next
    case 2
    then have "\<not> a < b" by simp
    with 2 show ?thesis by (simp add: edgeId_def)
  next
    case 3
    then show ?thesis by simp
  qed
qed

lemma dom_addOrUpdateEdge:
  "dom (addOrUpdateEdge edges a b t w ps) = insert (edgeId a b t) (dom edges)"
  by (auto simp: addOrUpdateEdge_def Let_def split: option.splits)

lemma addOrUpdateEdge_other:
  "k \<noteq> edgeId a b t \<Longrightarrow> addOrUpdateEdge edges a b t w ps k = edges k"
  by (simp add: addOrUpdateEdge_def Let_def split: option.splits)

lemma addOrUpdateEdge_fresh:
  "edges (edgeId a b t) = None \<Longrightarrow>
     addOrUpdateEdge edges a b t w ps (edgeId a b t) =
       Some \<lparr>edge_source = a, edge_target = b, edge_type = t, edge_weight = w,
             edge_properties = ps\<rparr>"
  by (simp add: addOrUpdateEdge_def Let_def)

lemma addOrUpdateEdge_known:
  "edges (edgeId a b t) = Some e \<Longrightarrow>
     addOrUpdateEdge edges a b t w ps (edgeId a b t) =
       Some (e\<lparr>edge_weight := edge_weight e + w,
               edge_properties := foldl mergeProperty (edge_properties e) ps\<rparr>)"
  by (simp add: addOrUpdateEdge_def Let_def)

lemma keyed_addOrUpdateEdge:
  assumes "keyed edges"
  shows "keyed (addOrUpdateEdge edges a b t w ps)"
  unfolding keyed_def
proof (intro allI impI)
  fix k e
  assume h: "addOrUpdateEdge edges a b t w ps k = Some e"
  show "k = edgeId (edge_source e) (edge_target e) (edge_type e)"
  proof (cases "k = edgeId a b t")
    case False
    with h have "edges k = Some e" by (simp add: addOrUpdateEdge_other)
    with assms show ?thesis by (simp add: keyed_def)
  next
    case True
    show ?thesis
    proof (cases "edges (edgeId a b t)")
      case None
      with h True show ?thesis by (auto simp: addOrUpdateEdge_fresh)
    next
      case (Some old)
      have o: "edgeId a b t = edgeId (edge_source old) (edge_target old) (edge_type old)"
        using assms Some by (simp add: keyed_def)
      have "addOrUpdateEdge edges a b t w ps (edgeId a b t) =
          Some (old\<lparr>edge_weight := edge_weight old + w,
               edge_properties := foldl mergeProperty (edge_properties old) ps\<rparr>)"
        using Some by (rule addOrUpdateEdge_known)
      with h True have "e = old\<lparr>edge_weight := edge_weight old + w,
               edge_properties := foldl mergeProperty (edge_properties old) ps\<rparr>" by simp
      then have "edge_source e = edge_source old" "edge_target e = edge_target old"
        "edge_type e = edge_type old" by simp_all
      with True o show ?thesis by simp
    qed
  qed
qed

lemma keyed_pairWith: "keyed edges \<Longrightarrow> keyed (pairWith edges eventId x ys)"
  by (induction ys arbitrary: edges) (simp_all add: keyed_addOrUpdateEdge)

lemma keyed_allPairs: "keyed edges \<Longrightarrow> keyed (allPairs edges eventId xs)"
  by (induction xs arbitrary: edges) (simp_all add: keyed_pairWith)

lemma keyed_cooccurrenceEdges: "keyed edges \<Longrightarrow> keyed (cooccurrenceEdges edges entries)"
  by (induction entries arbitrary: edges) (auto simp: keyed_allPairs)

lemma keyed_unique:
  assumes "keyed edges" and "edges k1 = Some e1" and "edges k2 = Some e2"
    and "{edge_source e1, edge_target e1} = {edge_source e2, edge_target e2}"
    and "edge_type e1 = edge_type e2"
  shows "k1 = k2"
proof -
  have k: "k1 = edgeId (edge_source e1) (edge_target e1) (edge_type e1)"
    "k2 = edgeId (edge_source e2) (edge_target e2) (edge_type e2)"
    using assms(1,2,3) by (simp_all add: keyed_def)
  from assms(4) consider "edge_source e1 = edge_source e2 \<and> edge_target e1 = edge_target e2"
    | "edge_source e1 = edge_target e2 \<and> edge_target e1 = edge_source e2"
    by (auto simp: doubleton_eq_iff)
  then show ?thesis
  proof cases
    case 1
    with k assms(5) show ?thesis by simp
  next
    case 2
    with k assms(5) show ?thesis by (simp add: edgeId_sym [of "edge_target e2"])
  qed
qed

lemma two_discoveries:
  assumes "edges (edgeId a b t) = None"
  shows "addOrUpdateEdge (addOrUpdateEdge edges a b t w1 p1) b a t w2 p2 (edgeId a b t) =
           Some \<lparr>edge_source = a, edge_target = b, edge_type = t, edge_weight = w1 + w2,
                 edge_properties = foldl mergeProperty p1 p2\<rparr>"
proof -
  let ?first = "addOrUpdateEdge edges a b t w1 p1"
  have "?first (edgeId b a t) = Some \<lparr>edge_source = a, edge_target = b, edge_type = t,
      edge_weight = w1, edge_properties = p1\<rparr>"
    using assms addOrUpdateEdge_fresh [of edges a b t w1 p1] by (simp add: edgeId_sym [of b a])
  then have "addOrUpdateEdge ?first b a t w2 p2 (edgeId b a t) =
      Some (\<lparr>edge_source = a, edge_target = b, edge_type = t,
      edge_weight = w1, edge_properties = p1\<rparr>\<lparr>edge_weight := w1 + w2,
               edge_properties := foldl mergeProperty p1 p2\<rparr>)"
    using addOrUpdateEdge_known [of ?first b a t _ w2 p2] by simp
  then show ?thesis by (simp add: edgeId_sym [of b a])
qed

lemma scalar_collision:
  assumes "map_of props key = Some old" and "\<not> isArray old"
  shows "map_of (foldl mergeProperty props [(key, v)]) key = Some (PArr [old, v])"
  using assms by (cases old) (simp_all add: mergeProperty_def isArray_def update_conv')

lemma cooccurrence_twice:
  assumes "event_id e1 \<noteq> event_id e2"
    and "entities e1 = Some [x, y]"
    and "entities e2 = Some [y, x] \<or> entities e2 = Some [x, y]"
    and "ent_confidence x \<ge> 6 / 10" and "ent_confidence y \<ge> 6 / 10"
    and "entityKey x \<noteq> entityKey y"
  shows "processEntityCooccurrences [e1, e2] Map.empty =
           [edgeId (entityKey x) (entityKey y) ''cooccurs_with'' \<mapsto>
              \<lparr>edge_source = entityKey x, edge_target = entityKey y,
               edge_type = ''cooccurs_with'', edge_weight = 2,
               edge_properties = [(''eventId'', PArr [PStr (event_id e1), PStr (event_id e2)])]\<rparr>]"
proof -
  let ?k = "edgeId (entityKey x) (entityKey y) ''cooccurs_with''"
  let ?first = "\<lparr>edge_source = entityKey x, edge_target = entityKey y,
               edge_type = ''cooccurs_with'', edge_weight = 1,
               edge_properties = [(''eventId'', PStr (event_id e1))]\<rparr>"
  have s1: "collectEntitySet [] [x, y] = [entityKey x, entityKey y]"
    and s2: "collectEntitySet [] [y, x] = [entityKey y, entityKey x]"
    using assms(4,5,6) by auto
  have one: "allPairs Map.empty (event_id e1) [entityKey x, entityKey y] = [?k \<mapsto> ?first]"
    by (simp add: addOrUpdateEdge_def)
  have two: "addOrUpdateEdge [?k \<mapsto> ?first] a b ''cooccurs_with'' 1
                 [(''eventId'', PStr (event_id e2))] =
           [?k \<mapsto> ?first\<lparr>edge_weight := 2,
              edge_properties := [(''eventId'', PArr [PStr (event_id e1), PStr (event_id e2)])]\<rparr>]"
    if "edgeId a b ''cooccurs_with'' = ?k" for a b
    using that by (simp add: addOrUpdateEdge_def mergeProperty_def)
  from assms(3) show ?thesis
  proof
    assume o: "entities e2 = Some [y, x]"
    have "collectEventEntities [] [e1, e2] =
        [(event_id e1, [entityKey x, entityKey y]), (event_id e2, [entityKey y, entityKey x])]"
      using assms(1,2) o by (simp add: s1 s2 Let_def del: collectEntitySet.simps)
    then show ?thesis
      using one two [of "entityKey y" "entityKey x"]
      by (simp add: processEntityCooccurrences_def edgeId_sym [of "entityKey y"])
  next
    assume o: "entities e2 = Some [x, y]"
    have "collectEventEntities [] [e1, e2] =
        [(event_id e1, [entityKey x, entityKey y]), (event_id e2, [entityKey x, entityKey y])]"
      using assms(1,2) o by (simp add: s1 Let_def del: collectEntitySet.simps)
    then show ?thesis
      using one two [of "entityKey x" "entityKey y"]
      by (simp add: processEntityCooccurrences_def)
  qed
qed

text \<open>
  C7. The edge identifier is the same for (A, B) and (B, A), and addOrUpdateEdge touches
  that identifier only. In a map whose records sit under their own identifiers, a property
  that addOrUpdateEdge and processEntityCooccurrences keep, two records with the same pair
  of endpoints and the same type are the same record. Discovering an edge as A-B and then
  as B-A leaves one record with the sum of the two weights; a discovery of a known edge
  adds its weight to the record, and a property that meets a scalar value becomes the
  array of the old and the new value. Two distinct events that both hold the same two
  entities, in either order, yield exactly one cooccurs_with edge, of weight 2.
\<close>

theorem canonical_edge_records:
  "edgeId a b t = edgeId b a t
   \<and> dom (addOrUpdateEdge edges a b t w ps) = insert (edgeId a b t) (dom edges)
   \<and> (keyed edges \<longrightarrow> keyed (addOrUpdateEdge edges a b t w ps)
          \<and> keyed (processEntityCooccurrences events edges))
   \<and> (keyed edges \<and> edges k1 = Some r1 \<and> edges k2 = Some r2
        \<and> {edge_source r1, edge_target r1} = {edge_source r2, edge_target r2}
        \<and> edge_type r1 = edge_type r2 \<longrightarrow> k1 = k2)
   \<and> (edges (edgeId a b t) = None \<longrightarrow>
        (\<exists>r. addOrUpdateEdge (addOrUpdateEdge edges a b t w1 p1) b a t w2 p2 (edgeId a b t)
               = Some r \<and> edge_weight r = w1 + w2))
   \<and> (edges (edgeId a b t) = Some r0 \<longrightarrow>
        (\<exists>r. addOrUpdateEdge edges a b t w ps (edgeId a b t) = Some r
           \<and> edge_weight r = edge_weight r0 + w
           \<and> (map_of (edge_properties r0) key = Some old \<and> \<not> isArray old \<and> ps = [(key, v)]
                \<longrightarrow> map_of (edge_properties r) key = Some (PArr [old, v]))))
   \<and> (event_id e1 \<noteq> event_id e2 \<and> entities e1 = Some [x, y]
        \<and> (entities e2 = Some [y, x] \<or> entities e2 = Some [x, y])
        \<and> ent_confidence x \<ge> 6 / 10 \<and> ent_confidence y \<ge> 6 / 10
        \<and> entityKey x \<noteq> entityKey y \<longrightarrow>
        dom (processEntityCooccurrences [e1, e2] Map.empty)
          = {edgeId (entityKey x) (entityKey y) ''cooccurs_with''}
        \<and> (\<exists>r. processEntityCooccurrences [e1, e2] Map.empty
                   (edgeId (entityKey x) (entityKey y) ''cooccurs_with'') = Some r
              \<and> edge_weight r = 2
              \<and> map_of (edge_properties r) ''eventId''
                   = Some (PArr [PStr (event_id e1), PStr (event_id e2)])))"
proof -
  have c3: "keyed edges \<longrightarrow> keyed (addOrUpdateEdge edges a b t w ps)
          \<and> keyed (processEntityCooccurrences events edges)"
    by (simp add: keyed_addOrUpdateEdge processEntityCooccurrences_def keyed_cooccurrenceEdges)
  have c4: "keyed edges \<and> edges k1 = Some r1 \<and> edges k2 = Some r2
        \<and> {edge_source r1, edge_target r1} = {edge_source r2, edge_target r2}
        \<and> edge_type r1 = edge_type r2 \<longrightarrow> k1 = k2"
    using keyed_unique [of edges k1 r1 k2 r2] by blast
  have c5: "edges (edgeId a b t) = None \<longrightarrow>
        (\<exists>r. addOrUpdateEdge (addOrUpdateEdge edges a b t w1 p1) b a t w2 p2 (edgeId a b t)
               = Some r \<and> edge_weight r = w1 + w2)"
    by (simp add: two_discoveries)
  have c6: "edges (edgeId a b t) = Some r0 \<longrightarrow>
        (\<exists>r. addOrUpdateEdge edges a b t w ps (edgeId a b t) = Some r
           \<and> edge_weight r = edge_weight r0 + w
           \<and> (map_of (edge_properties r0) key = Some old \<and> \<not> isArray old \<and> ps = [(key, v)]
                \<longrightarrow> map_of (edge_properties r) key = Some (PArr [old, v])))"
    using scalar_collision [of "edge_properties r0" key old v]
    by (auto simp: addOrUpdateEdge_known)
  have c7: "event_id e1 \<noteq> event_id e2 \<and> entities e1 = Some [x, y]
        \<and> (entities e2 = Some [y, x] \<or> entities e2 = Some [x, y])
        \<and> ent_confidence x \<ge> 6 / 10 \<and> ent_confidence y \<ge> 6 / 10
        \<and> entityKey x \<noteq> entityKey y \<longrightarrow>
        dom (processEntityCooccurrences [e1, e2] Map.empty)
          = {edgeId (entityKey x) (entityKey y) ''cooccurs_with''}
        \<and> (\<exists>r. processEntityCooccurrences [e1, e2] Map.empty
                   (edgeId (entityKey x) (entityKey y) ''cooccurs_with'') = Some r
              \<and> edge_weight r = 2
              \<and> map_of (edge_properties r) ''eventId''
                   = Some (PArr [PStr (event_id e1), PStr (event_id e2)]))"
  proof (intro impI)
    assume h: "event_id e1 \<noteq> event_id e2 \<and> entities e1 = Some [x, y]
        \<and> (entities e2 = Some [y, x] \<or> entities e2 = Some [x, y])
        \<and> ent_confidence x \<ge> 6 / 10 \<and> ent_confidence y \<ge> 6 / 10
        \<and> entityKey x \<noteq> entityKey y"
    then have "processEntityCooccurrences [e1, e2] Map.empty =
           [edgeId (entityKey x) (entityKey y) ''cooccurs_with'' \<mapsto>
              \<lparr>edge_source = entityKey x, edge_target = entityKey y,
               edge_type = ''cooccurs_with'', edge_weight = 2,
               edge_properties = [(''eventId'', PArr [PStr (event_id e1), PStr (event_id e2)])]\<rparr>]"
      by (intro cooccurrence_twice) simp_all
    then show "dom (processEntityCooccurrences [e1, e2] Map.empty)
          = {edgeId (entityKey x) (entityKey y) ''cooccurs_with''}
        \<and> (\<exists>r. processEntityCooccurrences [e1, e2] Map.empty
                   (edgeId (entityKey x) (entityKey y) ''cooccurs_with'') = Some r
              \<and> edge_weight r = 2
              \<and> map_of (edge_properties r) ''eventId''
                   = Some (PArr [PStr (event_id e1), PStr (event_id e2)]))"
      by simp
  qed
  have c1: "edgeId a b t = edgeId b a t" by (rule edgeId_sym)
  have c2: "dom (addOrUpdateEdge edges a b t w ps) = insert (edgeId a b t) (dom edges)"
    by (rule dom_addOrUpdateEdge)
  show ?thesis by (intro conjI) (rule c1 c2 c3 c4 c5 c6 c7)+
qed

text \<open>
  C7, at two events that both mention the organization Acme and the hashtag #launch.
\<close>

theorem canonical_edge_records_witness:
  "keyed Map.empty
   \<and> event_id acme_event_1 \<noteq> event_id acme_event_2
   \<and> entities acme_event_1 = Some [acme, launch]
   \<and> entities acme_event_2 = Some [launch, acme]
   \<and> ent_confidence acme \<ge> 6 / 10 \<and> ent_confidence launch \<ge> 6 / 10
   \<and> entityKey acme \<noteq> entityKey launch
   \<and> edgeId (entityKey acme) (entityKey launch) ''cooccurs_with''
       = ''entity:hashtag:#launch|cooccurs_with|entity:organization:Acme''
   \<and> keyed (processEntityCooccurrences [acme_event_1, acme_event_2] Map.empty)
   \<and> dom (processEntityCooccurrences [acme_event_1, acme_event_2] Map.empty)
       = {''entity:hashtag:#launch|cooccurs_with|entity:organization:Acme''}
   \<and> (\<exists>r. processEntityCooccurrences [acme_event_1, acme_event_2] Map.empty
              ''entity:hashtag:#launch|cooccurs_with|entity:organization:Acme'' = Some r
         \<and> edge_weight r = 2
         \<and> map_of (edge_properties r) ''eventId'' = Some (PArr [PStr ''n1'', PStr ''n2'']))"
proof -
  have k: "keyed Map.empty" by (simp add: keyed_def)
  have h: "event_id acme_event_1 \<noteq> event_id acme_event_2"
    "entities acme_event_1 = Some [acme, launch]"
    "entities acme_event_2 = Some [launch, acme]"
    "ent_confidence acme \<ge> 6 / 10" "ent_confidence launch \<ge> 6 / 10"
    "entityKey acme \<noteq> entityKey launch"
    by (simp_all add: acme_event_1_def acme_event_2_def mk_event_def acme_def launch_def
          entityKey_def)
  have i: "event_id acme_event_1 = ''n1''" "event_id acme_event_2 = ''n2''"
    by (simp_all add: acme_event_1_def acme_event_2_def mk_event_def)
  have e: "edgeId (entityKey acme) (entityKey launch) ''cooccurs_with''
       = ''entity:hashtag:#launch|cooccurs_with|entity:organization:Acme''"
    by code_simp
  note all = canonical_edge_records [of _ _ _ Map.empty _ _ "[acme_event_1, acme_event_2]"
      _ _ _ _ _ _ _ _ _ _ _ _ acme_event_1 acme_event_2 acme launch]
  have p: "keyed (processEntityCooccurrences [acme_event_1, acme_event_2] Map.empty)"
    using k all [THEN conjunct2, THEN conjunct2, THEN conjunct1] by simp
  have "dom (processEntityCooccurrences [acme_event_1, acme_event_2] Map.empty)
          = {edgeId (entityKey acme) (entityKey launch) ''cooccurs_with''}
        \<and> (\<exists>r. processEntityCooccurrences [acme_event_1, acme_event_2] Map.empty
                   (edgeId (entityKey acme) (entityKey launch) ''cooccurs_with'') = Some r
              \<and> edge_weight r = 2
              \<and> map_of (edge_properties r) ''eventId''
                   = Some (PArr [PStr (event_id acme_event_1), PStr (event_id acme_event_2)]))"
    using h all [THEN conjunct2, THEN conjunct2, THEN conjunct2, THEN conjunct2,
        THEN conjunct2, THEN conjunct2] by simp
  then have q: "dom (processEntityCooccurrences [acme_event_1, acme_event_2] Map.empty)
       = {''entity:hashtag:#launch|cooccurs_with|entity:organization:Acme''}
   \<and> (\<exists>r. processEntityCooccurrences [acme_event_1, acme_event_2] Map.empty
              ''entity:hashtag:#launch|cooccurs_with|entity:organization:Acme'' = Some r
         \<and> edge_weight r = 2
         \<and> map_of (edge_properties r) ''eventId'' = Some (PArr [PStr ''n1'', PStr ''n2'']))"
    unfolding i e .
  show ?thesis using k h e p q by (intro conjI) simp_all
qed

end
